theory Spec2Isabelle
  imports Main
begin

section \<open>Text escaping (Python's \<^verbatim>\<open>html\<close> module, used by base.py)\<close>

text \<open>
  A Python \<^verbatim>\<open>str\<close> is a \<open>string\<close> holding its UTF-8 bytes.  All the characters
  the functions below look for are ASCII, so reading bytes instead of code points
  changes nothing they do.

  \<^verbatim>\<open>html.escape(s)\<close> with \<^verbatim>\<open>quote=True\<close>: five \<^verbatim>\<open>str.replace\<close> calls in a row,
  the ampersand first.
\<close>

definition replace_char :: "char \<Rightarrow> string \<Rightarrow> string \<Rightarrow> string" where
  "replace_char c r s = concat (map (\<lambda>x. if x = c then r else [x]) s)"

definition html_escape :: "string \<Rightarrow> string" where
  "html_escape s0 =
     (let s1 = replace_char (CHR ''&'') ''&amp;'' s0;
          s2 = replace_char (CHR ''<'') ''&lt;'' s1;
          s3 = replace_char (CHR ''>'') ''&gt;'' s2;
          s4 = replace_char (CHR 0x22) ''&quot;'' s3;
          s5 = replace_char (CHR 0x27) ''&#x27;'' s4
      in s5)"

text \<open>
  \<^verbatim>\<open>html.unescape\<close>.  The three tables of the module (\<^verbatim>\<open>html5\<close> with its 2231
  named references, \<^verbatim>\<open>_invalid_charrefs\<close>, \<^verbatim>\<open>_invalid_codepoints\<close>) are
  parameters.  \<open>match_charref\<close> is one match of the regular expression
  \<^verbatim>\<open>&(#[0-9]+;?|#[xX][0-9a-fA-F]+;?|[^\t\n\f <&#;]{1,32};?)\<close> after the ampersand:
  it gives group 1 and the rest of the input.  \<open>replace_charref\<close> is
  \<^verbatim>\<open>_replace_charref\<close>, \<open>charref_sub\<close> the \<^verbatim>\<open>re.sub\<close> over the whole string, and
  \<open>chr\<close> the UTF-8 bytes of a code point.
\<close>

record charrefs =
  html5 :: "(string \<times> string) list"
  invalid_charrefs :: "(nat \<times> string) list"
  invalid_codepoints :: "nat list"

definition chr :: "nat \<Rightarrow> string" where
  "chr n =
     (if n < 0x80 then [char_of n]
      else if n < 0x800 then [char_of (0xC0 + n div 0x40), char_of (0x80 + n mod 0x40)]
      else if n < 0x10000 then
        [char_of (0xE0 + n div 0x1000), char_of (0x80 + n div 0x40 mod 0x40),
         char_of (0x80 + n mod 0x40)]
      else
        [char_of (0xF0 + n div 0x40000), char_of (0x80 + n div 0x1000 mod 0x40),
         char_of (0x80 + n div 0x40 mod 0x40), char_of (0x80 + n mod 0x40)])"

definition is_digit :: "char \<Rightarrow> bool" where
  "is_digit c = (48 \<le> (of_char c :: nat) \<and> (of_char c :: nat) \<le> 57)"

definition is_hexdigit :: "char \<Rightarrow> bool" where
  "is_hexdigit c =
     (is_digit c \<or> (97 \<le> (of_char c :: nat) \<and> (of_char c :: nat) \<le> 102)
        \<or> (65 \<le> (of_char c :: nat) \<and> (of_char c :: nat) \<le> 70))"

definition is_name_char :: "char \<Rightarrow> bool" where
  "is_name_char c =
     (c \<notin> {CHR 0x09, CHR 0x0A, CHR 0x0C, CHR '' '', CHR ''<'', CHR ''&'', CHR ''#'', CHR '';''})"

definition digit_val :: "char \<Rightarrow> nat" where
  "digit_val c =
     (let n = of_char c in
      if 97 \<le> n then n - 87 else if 65 \<le> n then n - 55 else n - 48)"

definition int_of_digits :: "nat \<Rightarrow> string \<Rightarrow> nat" where
  "int_of_digits base ds = foldl (\<lambda>acc c. acc * base + digit_val c) 0 ds"

definition rstrip_semicolon :: "string \<Rightarrow> string" where
  "rstrip_semicolon s = rev (dropWhile (\<lambda>c. c = CHR '';'') (rev s))"

definition opt_semicolon :: "string \<Rightarrow> string \<times> string" where
  "opt_semicolon s =
     (case s of
        [] \<Rightarrow> ([], s)
      | c # r \<Rightarrow> if c = CHR '';'' then ('';'', r) else ([], s))"

definition match_charref :: "string \<Rightarrow> (string \<times> string) option" where
  "match_charref s =
     (case s of
        [] \<Rightarrow> None
      | c # cs \<Rightarrow>
          if c = CHR ''#'' then
            (if takeWhile is_digit cs \<noteq> [] then
               (let (semi, r) = opt_semicolon (dropWhile is_digit cs)
                in Some (c # takeWhile is_digit cs @ semi, r))
             else
               (case cs of
                  [] \<Rightarrow> None
                | x # hs \<Rightarrow>
                    if (x = CHR ''x'' \<or> x = CHR ''X'') \<and> takeWhile is_hexdigit hs \<noteq> [] then
                      (let (semi, r) = opt_semicolon (dropWhile is_hexdigit hs)
                       in Some (c # x # takeWhile is_hexdigit hs @ semi, r))
                    else None))
          else
            (let nm = take 32 (takeWhile is_name_char s) in
             if nm \<noteq> [] then
               (let (semi, r) = opt_semicolon (drop (length nm) s)
                in Some (nm @ semi, r))
             else None))"

fun longest_prefix :: "(string \<times> string) list \<Rightarrow> string \<Rightarrow> nat \<Rightarrow> string" where
  "longest_prefix tbl s 0 = CHR ''&'' # s"
| "longest_prefix tbl s (Suc x) =
     (if Suc x \<le> 1 then CHR ''&'' # s
      else (case map_of tbl (take (Suc x) s) of
              Some r \<Rightarrow> r @ drop (Suc x) s
            | None \<Rightarrow> longest_prefix tbl s x))"

definition replace_charref :: "charrefs \<Rightarrow> string \<Rightarrow> string" where
  "replace_charref t s =
     (if take 1 s = ''#'' then
        (let num = (if take 1 (drop 1 s) = ''x'' \<or> take 1 (drop 1 s) = ''X''
                    then int_of_digits 16 (rstrip_semicolon (drop 2 s))
                    else int_of_digits 10 (rstrip_semicolon (drop 1 s)))
         in case map_of (invalid_charrefs t) num of
              Some r \<Rightarrow> r
            | None \<Rightarrow>
                if (0xD800 \<le> num \<and> num \<le> 0xDFFF) \<or> num > 0x10FFFF then chr 0xFFFD
                else if num \<in> set (invalid_codepoints t) then []
                else chr num)
      else
        (case map_of (html5 t) s of
           Some r \<Rightarrow> r
         | None \<Rightarrow> longest_prefix (html5 t) s (length s - 1)))"

lemma opt_semicolon_length: "opt_semicolon s = (semi, r) \<Longrightarrow> length r \<le> length s"
  by (auto simp: opt_semicolon_def split: list.splits if_splits)

lemma match_charref_length: "match_charref s = Some (g, r) \<Longrightarrow> length r \<le> length s"
  unfolding match_charref_def
  by (auto split: list.splits if_splits prod.splits simp: Let_def
      dest!: opt_semicolon_length intro: le_trans[OF _ length_dropWhile_le] le_SucI)

function charref_sub :: "charrefs \<Rightarrow> string \<Rightarrow> string" where
  "charref_sub t [] = []"
| "charref_sub t (c # cs) =
     (if c = CHR ''&'' then
        (case match_charref cs of
           Some (g, r) \<Rightarrow> replace_charref t g @ charref_sub t r
         | None \<Rightarrow> c # charref_sub t cs)
      else c # charref_sub t cs)"
  by pat_completeness auto
termination
  by (relation "measure (\<lambda>(t, s). length s)") (auto dest: match_charref_length)

definition html_unescape :: "charrefs \<Rightarrow> string \<Rightarrow> string" where
  "html_unescape t s = (if CHR ''&'' \<notin> set s then s else charref_sub t s)"

section \<open>Errors\<close>

text \<open>
  The exceptions of base.py, as values.  \<open>TypeError_not_found tag\<close> is the
  \<^verbatim>\<open>TypeError\<close> of \<^verbatim>\<open>Safe.parse\<close> (``Element or component ... not found''),
  \<open>TypeError_textual self_name child_name\<close> the one of \<^verbatim>\<open>Element.__format__\<close> with
  the two class names its message prints, \<open>ImportWarning name\<close> the one of
  \<^verbatim>\<open>Element.__init_subclass__\<close>, \<open>AttributeError\<close> a read of an attribute the object
  does not have.  \<open>Raised msg\<close> stands for whatever the helpers of
  \<^verbatim>\<open>ludic/utils.py\<close> or an overridden \<^verbatim>\<open>render\<close> raise.
\<close>

datatype error =
    TypeError_not_found string
  | TypeError_textual string string
  | ImportWarning string
  | AttributeError
  | Raised string

text \<open>
  The outcome of a call that may raise and may run forever: \<open>None\<close> when the call
  does not return, \<open>Some (Inl e)\<close> when it raises \<open>e\<close>, \<open>Some (Inr v)\<close> when it
  returns \<open>v\<close>.  \<open>bind_result\<close> runs the continuation on a returned value only.
\<close>

definition bind_result ::
  "(error + 'a) option \<Rightarrow> ('a \<Rightarrow> (error + 'b) option) \<Rightarrow> (error + 'b) option" where
  "bind_result m k =
     Option.bind m (\<lambda>r. case r of Inl e \<Rightarrow> Some (Inl e) | Inr x \<Rightarrow> k x)"

lemma bind_result_mono [partial_function_mono]:
  assumes "mono_option B" and "\<And>y. mono_option (\<lambda>f. C y f)"
  shows "mono_option (\<lambda>f. bind_result (B f) (\<lambda>y. C y f))"
  unfolding bind_result_def
proof (rule bind_mono [OF assms(1)])
  fix r :: "error + 'c"
  show "mono_option (\<lambda>f. case r of Inl e \<Rightarrow> Some (Inl e) | Inr x \<Rightarrow> C x f)"
    by (cases r) (simp_all add: option.const_mono assms(2))
qed

section \<open>Classes, elements and the registry (base.py)\<close>

text \<open>
  A subclass of \<^verbatim>\<open>Element\<close>: its \<^verbatim>\<open>__name__\<close>, the class attribute
  \<^verbatim>\<open>html_name\<close> when the class has one (\<^verbatim>\<open>hasattr(dom, "html_name")\<close>), and
  \<^verbatim>\<open>always_pair\<close> (default \<^verbatim>\<open>False\<close>).
\<close>

record pyclass =
  cls_name :: string
  html_name :: "string option"
  always_pair :: bool

datatype attr_value =
    AttrStr string
  | AttrBool bool
  | AttrInt int

text \<open>The attributes \<^verbatim>\<open>dict\<close>, in insertion order; the keys are distinct.\<close>

type_synonym attrs = "(string \<times> attr_value) list"

text \<open>
  \<^verbatim>\<open>AnyChild = PrimitiveChild | Element\<close> with
  \<^verbatim>\<open>PrimitiveChild = Safe | str | bool | int | float\<close>.  \<open>Str\<close> is a \<^verbatim>\<open>str\<close> that is
  not a \<^verbatim>\<open>Safe\<close>.  A float child is kept as the text \<^verbatim>\<open>str\<close> gives for it.
\<close>

datatype child =
    Str string
  | Safe string
  | Bool bool
  | IntVal int
  | Float string
  | Elem element
and element =
    Element (cls: pyclass) (children: "child list") (attrs: attrs)

type_synonym registry = "string \<rightharpoonup> pyclass"

text \<open>
  \<^verbatim>\<open>Element.__init_subclass__\<close> (base.py 99--106), run when a subclass is
  declared.  The registry \<^verbatim>\<open>_ELEMENT_REGISTRY\<close> is global state: the function
  returns the outcome together with the registry afterwards.
\<close>

definition init_subclass :: "registry \<Rightarrow> pyclass \<Rightarrow> (error + unit) \<times> registry" where
  "init_subclass reg c =
     (if cls_name c \<in> dom reg then (Inl (ImportWarning (cls_name c)), reg)
      else (Inr (), reg(cls_name c \<mapsto> c)))"

subsection \<open>The helpers of \<^verbatim>\<open>ludic/utils.py\<close>\<close>

text \<open>
  What \<^verbatim>\<open>parse_elements\<close> returns: a list of \<^verbatim>\<open>str\<close> and of dictionaries with
  the keys \<^verbatim>\<open>tag\<close>, \<^verbatim>\<open>children\<close> and \<^verbatim>\<open>attrs\<close>; \<^verbatim>\<open>Safe.parse\<close> hands the
  \<^verbatim>\<open>children\<close> to a constructor as they are.
\<close>

datatype parsed =
    Text string
  | Tag (tag: string) (tag_children: "child list") (tag_attrs: attrs)

text \<open>
  base.py imports these functions from \<^verbatim>\<open>ludic/utils.py\<close>, which is not among the
  sources; every definition below takes them as a parameter.  The validators get the
  class of \<^verbatim>\<open>self\<close> (and \<^verbatim>\<open>validate_elements\<close> the attributes already stored on
  it) and give the exception they raise, if any.
\<close>

record utils =
  parse_elements :: "string \<Rightarrow> error + parsed list"
  validate_attributes :: "pyclass \<Rightarrow> attrs \<Rightarrow> error option"
  validate_elements :: "pyclass \<Rightarrow> attrs \<Rightarrow> child list \<Rightarrow> error option"
  format_attribute :: "string \<Rightarrow> attr_value \<Rightarrow> string"
  format_html_attribute :: "string \<Rightarrow> attr_value \<Rightarrow> string"

subsection \<open>\<^verbatim>\<open>str\<close> of a primitive child\<close>

fun digits :: "nat \<Rightarrow> string" where
  "digits n =
     (if n < 10 then [''0123456789'' ! n] else digits (n div 10) @ [''0123456789'' ! (n mod 10)])"

declare digits.simps [simp del]

definition str_int :: "int \<Rightarrow> string" where
  "str_int i = (if i < 0 then CHR ''-'' # digits (nat (- i)) else digits (nat i))"

definition is_primitive :: "child \<Rightarrow> bool" where
  "is_primitive c = (case c of Elem _ \<Rightarrow> False | _ \<Rightarrow> True)"

text \<open>\<^verbatim>\<open>str(child)\<close> for a primitive child; an element child has its own case at each use.\<close>

definition str_primitive :: "child \<Rightarrow> string" where
  "str_primitive c =
     (case c of
        Str s \<Rightarrow> s
      | Safe s \<Rightarrow> s
      | Bool b \<Rightarrow> (if b then ''True'' else ''False'')
      | IntVal i \<Rightarrow> str_int i
      | Float s \<Rightarrow> s
      | Elem _ \<Rightarrow> [])"

subsection \<open>Accessors and formatting (base.py 142--174)\<close>

definition join :: "string \<Rightarrow> string list \<Rightarrow> string" where
  "join sep xs = (case xs of [] \<Rightarrow> [] | y # ys \<Rightarrow> y @ concat (map (\<lambda>z. sep @ z) ys))"

definition format_attributes :: "(string \<Rightarrow> attr_value \<Rightarrow> string) \<Rightarrow> element \<Rightarrow> string" where
  "format_attributes formatter self = join '' '' (map (\<lambda>(key, v). formatter key v) (attrs self))"

definition is_simple :: "element \<Rightarrow> bool" where
  "is_simple self = (length (children self) = 1 \<and> is_primitive (hd (children self)))"

definition has_attributes :: "element \<Rightarrow> bool" where
  "has_attributes self = (attrs self \<noteq> [])"

subsection \<open>\<^verbatim>\<open>render\<close> and the resolution loop of \<^verbatim>\<open>to_html\<close>\<close>

text \<open>\<^verbatim>\<open>Element.render\<close> (base.py 252--253).\<close>

definition Element_render :: "element \<Rightarrow> element" where
  "Element_render self = self"

text \<open>
  \<^verbatim>\<open>dom.render()\<close>: the method of the class of \<^verbatim>\<open>dom\<close>.  The table gives, by class
  name, the \<^verbatim>\<open>render\<close> of each class that overrides it (the components); every
  other class inherits \<^verbatim>\<open>Element.render\<close>.
\<close>

type_synonym render_table = "string \<Rightarrow> (element \<Rightarrow> error + element) option"

definition render :: "render_table \<Rightarrow> element \<Rightarrow> error + element" where
  "render rt self =
     (case rt (cls_name (cls self)) of
        None \<Rightarrow> Inr (Element_render self)
      | Some f \<Rightarrow> f self)"

text \<open>\<^verbatim>\<open>hasattr(dom, "html_name")\<close>.\<close>

definition has_html_name :: "element \<Rightarrow> bool" where
  "has_html_name d = (html_name (cls d) \<noteq> None)"

text \<open>
  The loop \<^verbatim>\<open>while not hasattr(dom, "html_name"): dom = dom.render()\<close>
  (base.py 219--221).
\<close>

partial_function (option) resolve :: "render_table \<Rightarrow> element \<Rightarrow> (error + element) option" where
  "resolve rt d =
     (if \<not> has_html_name d
      then (case render rt d of
              Inl e \<Rightarrow> Some (Inl e)
            | Inr d' \<Rightarrow> resolve rt d')
      else Some (Inr d))"

subsection \<open>\<^verbatim>\<open>to_html\<close> (base.py 23--32, 147--151, 217--235)\<close>

text \<open>\<^verbatim>\<open>"".join(formatter(child) for child in ...)\<close>, the first exception ending it.\<close>

fun join_results :: "('a \<Rightarrow> (error + string) option) \<Rightarrow> 'a list \<Rightarrow> (error + string) option" where
  "join_results f [] = Some (Inr [])"
| "join_results f (x # xs) =
     bind_result (f x) (\<lambda>s. bind_result (join_results f xs) (\<lambda>t. Some (Inr (s @ t))))"

lemma join_results_mono [partial_function_mono]:
  assumes "\<And>x. mono_option (\<lambda>f. B f x)"
  shows "mono_option (\<lambda>f. join_results (B f) xs)"
proof (induction xs)
  case Nil
  show ?case by (simp add: option.const_mono)
next
  case (Cons x xs)
  show ?case
    unfolding join_results.simps
    by (intro bind_result_mono assms Cons option.const_mono)
qed

text \<open>
  \<^verbatim>\<open>default_html_formatter\<close>; \<open>str_element\<close> is \<^verbatim>\<open>str\<close> of an element child, that
  is \<^verbatim>\<open>Element.__str__\<close>, which calls \<^verbatim>\<open>to_html\<close>.
\<close>

definition default_html_formatter ::
  "(element \<Rightarrow> (error + string) option) \<Rightarrow> child \<Rightarrow> (error + string) option" where
  "default_html_formatter str_element c =
     (case c of
        Str s \<Rightarrow> Some (Inr (html_escape s))
      | Elem e \<Rightarrow> str_element e
      | _ \<Rightarrow> Some (Inr (str_primitive c)))"

lemma default_html_formatter_mono [partial_function_mono]:
  assumes "\<And>e. mono_option (\<lambda>f. B f e)"
  shows "mono_option (\<lambda>f. default_html_formatter (B f) c)"
  by (cases c) (simp_all add: default_html_formatter_def option.const_mono assms)

definition format_children ::
  "(child \<Rightarrow> (error + string) option) \<Rightarrow> element \<Rightarrow> (error + string) option" where
  "format_children formatter self = join_results formatter (children self)"

lemma format_children_mono [partial_function_mono]:
  assumes "\<And>c. mono_option (\<lambda>f. B f c)"
  shows "mono_option (\<lambda>f. format_children (B f) self)"
  unfolding format_children_def by (rule join_results_mono) (rule assms)

text \<open>The opening of the tag, up to and without its closing bracket (base.py 223--227).\<close>

definition html_open_tag :: "utils \<Rightarrow> string \<Rightarrow> element \<Rightarrow> string" where
  "html_open_tag u tg d =
     (if has_attributes d
      then ''<'' @ tg @ '' '' @ format_attributes (format_html_attribute u) d
      else ''<'' @ tg)"

partial_function (option) to_html :: "utils \<Rightarrow> render_table \<Rightarrow> element \<Rightarrow> (error + string) option" where
  "to_html u rt self =
     bind_result (resolve rt self) (\<lambda>d.
       case html_name (cls d) of
         None \<Rightarrow> Some (Inl AttributeError)
       | Some tg \<Rightarrow>
           if children d \<noteq> [] \<or> always_pair (cls d)
           then bind_result (format_children (default_html_formatter (to_html u rt)) d)
                  (\<lambda>children_str.
                     Some (Inr (html_open_tag u tg d @ ''>'' @ children_str @ ''</'' @ tg @ ''>'')))
           else Some (Inr (html_open_tag u tg d @ '' />'')))"

subsection \<open>\<^verbatim>\<open>to_string\<close> and \<^verbatim>\<open>__format__\<close> (base.py 124--131, 176--215)\<close>

definition indent_of :: "bool \<Rightarrow> nat \<Rightarrow> string" where
  "indent_of pretty level = (if pretty then concat (replicate level ''  '') else [])"

text \<open>
  The opening of the tag as \<^verbatim>\<open>to_string\<close> builds it before it looks at the children
  (base.py 185--193): the indentation, the class name, a line break in front from
  level 1 on, and the attributes.
\<close>

definition string_open_tag :: "utils \<Rightarrow> bool \<Rightarrow> nat \<Rightarrow> element \<Rightarrow> string" where
  "string_open_tag u pretty level self =
     (let element = indent_of pretty level @ ''<'' @ cls_name (cls self);
          element = (if level > 0 \<and> pretty then CHR 0x0A # element else element)
      in if has_attributes self
         then element @ '' '' @ format_attributes (format_attribute u) self
         else element)"

text \<open>
  \<open>to_string_child\<close> is the formatter \<^verbatim>\<open>to_string\<close> passes to
  \<^verbatim>\<open>_format_children\<close>: \<^verbatim>\<open>str(child)\<close> for a primitive, the child's own
  \<^verbatim>\<open>to_string\<close> one level down otherwise.
\<close>

fun to_string :: "utils \<Rightarrow> bool \<Rightarrow> nat \<Rightarrow> element \<Rightarrow> string"
  and to_string_child :: "utils \<Rightarrow> bool \<Rightarrow> nat \<Rightarrow> child \<Rightarrow> string" where
  "to_string u pretty level (Element c cs as) =
     (let self = Element c cs as;
          indent = indent_of pretty level;
          nm = cls_name c;
          element = string_open_tag u pretty level self
      in if cs \<noteq> [] then
           (let children_str = concat (map (to_string_child u pretty (level + 1)) cs)
            in if pretty then
                 (if is_simple self then
                    (if has_attributes self
                     then element @ ''>'' @ [CHR 0x0A] @ indent @ ''  '' @ children_str
                            @ [CHR 0x0A] @ indent @ ''</'' @ nm @ ''>''
                     else element @ ''>'' @ children_str @ ''</'' @ nm @ ''>'')
                  else element @ ''>'' @ indent @ ''  '' @ children_str
                         @ [CHR 0x0A] @ indent @ ''</'' @ nm @ ''>'')
               else element @ ''>'' @ children_str @ ''</'' @ nm @ ''>'')
         else element @ '' />'')"
| "to_string_child u pretty level (Elem e) = to_string u pretty level e"
| "to_string_child u pretty level (Str s) = str_primitive (Str s)"
| "to_string_child u pretty level (Safe s) = str_primitive (Safe s)"
| "to_string_child u pretty level (Bool b) = str_primitive (Bool b)"
| "to_string_child u pretty level (IntVal i) = str_primitive (IntVal i)"
| "to_string_child u pretty level (Float s) = str_primitive (Float s)"

text \<open>The loop of \<^verbatim>\<open>__format__\<close>: the first child that is not primitive raises.\<close>

fun check_textual :: "element \<Rightarrow> child list \<Rightarrow> error option" where
  "check_textual self [] = None"
| "check_textual self (Elem e # cs) =
     Some (TypeError_textual (cls_name (cls self)) (cls_name (cls e)))"
| "check_textual self (c # cs) = check_textual self cs"

definition Element_format :: "utils \<Rightarrow> element \<Rightarrow> error + string" where
  "Element_format u self =
     (case check_textual self (children self) of
        Some e \<Rightarrow> Inl e
      | None \<Rightarrow> Inr (to_string u False 0 self))"

subsection \<open>Construction: \<^verbatim>\<open>Safe.parse\<close> and \<^verbatim>\<open>Element.__init__\<close> (base.py 45--61, 108--119)\<close>

text \<open>
  The loop of \<^verbatim>\<open>Safe.parse\<close> over the parsed children, in order.  \<open>construct\<close> is
  the call \<^verbatim>\<open>element_type(*child["children"], **child["attrs"])\<close>.
\<close>

fun parse_children ::
  "registry \<Rightarrow> (pyclass \<Rightarrow> child list \<Rightarrow> attrs \<Rightarrow> (error + element) option) \<Rightarrow> parsed list
     \<Rightarrow> (error + child list) option" where
  "parse_children reg construct [] = Some (Inr [])"
| "parse_children reg construct (Text s # rest) =
     bind_result (parse_children reg construct rest) (\<lambda>new_children.
       Some (Inr (Safe s # new_children)))"
| "parse_children reg construct (Tag tg cs as # rest) =
     (case reg tg of
        None \<Rightarrow> Some (Inl (TypeError_not_found tg))
      | Some element_type \<Rightarrow>
          bind_result (construct element_type cs as) (\<lambda>element.
            bind_result (parse_children reg construct rest) (\<lambda>new_children.
              Some (Inr (Elem element # new_children)))))"

definition Safe_parse ::
  "utils \<Rightarrow> registry \<Rightarrow> (pyclass \<Rightarrow> child list \<Rightarrow> attrs \<Rightarrow> (error + element) option) \<Rightarrow> string
     \<Rightarrow> (error + child list) option" where
  "Safe_parse u reg construct s =
     (case parse_elements u s of
        Inl e \<Rightarrow> Some (Inl e)
      | Inr parsed_children \<Rightarrow> parse_children reg construct parsed_children)"

text \<open>\<^verbatim>\<open>len(children) == 1 and isinstance(children[0], Safe)\<close>, with the string.\<close>

definition sole_Safe :: "child list \<Rightarrow> string option" where
  "sole_Safe cs =
     (if length cs = 1 then (case hd cs of Safe s \<Rightarrow> Some s | _ \<Rightarrow> None) else None)"

definition raise_or :: "error option \<Rightarrow> (error + 'a) option \<Rightarrow> (error + 'a) option" where
  "raise_or chk k = (case chk of Some e \<Rightarrow> Some (Inl e) | None \<Rightarrow> k)"

lemma raise_or_mono [partial_function_mono]:
  assumes "mono_option K"
  shows "mono_option (\<lambda>f. raise_or chk (K f))"
  by (cases chk) (simp_all add: raise_or_def option.const_mono assms)

lemma parse_children_mono [partial_function_mono]:
  assumes "\<And>c cs as. mono_option (\<lambda>f. B f c cs as)"
  shows "mono_option (\<lambda>f. parse_children reg (B f) ps)"
proof (induction ps)
  case Nil
  show ?case by (simp add: option.const_mono)
next
  case (Cons p ps)
  show ?case
  proof (cases p)
    case (Text s)
    show ?thesis
      unfolding Text parse_children.simps
      by (intro bind_result_mono Cons option.const_mono)
  next
    case (Tag tg cs as)
    show ?thesis
    proof (cases "reg tg")
      case None
      then show ?thesis by (simp add: Tag option.const_mono)
    next
      case (Some element_type)
      have "mono_option (\<lambda>f. bind_result (B f element_type cs as) (\<lambda>element.
              bind_result (parse_children reg (B f) ps) (\<lambda>new_children.
                Some (Inr (Elem element # new_children)))))"
        by (intro bind_result_mono assms Cons option.const_mono)
      then show ?thesis by (simp add: Tag Some)
    qed
  qed
qed

lemma Safe_parse_mono [partial_function_mono]:
  assumes "\<And>c cs as. mono_option (\<lambda>f. B f c cs as)"
  shows "mono_option (\<lambda>f. Safe_parse u reg (B f) s)"
  by (cases "parse_elements u s")
    (simp_all add: Safe_parse_def option.const_mono parse_children_mono assms)

text \<open>
  \<^verbatim>\<open>Element.__init__\<close>, giving the element built.  A chain of constructor calls that
  never ends (Python stops it with \<^verbatim>\<open>RecursionError\<close> when the stack is full) is
  \<open>None\<close>.
\<close>

partial_function (option) Element_init ::
  "utils \<Rightarrow> registry \<Rightarrow> pyclass \<Rightarrow> child list \<Rightarrow> attrs \<Rightarrow> (error + element) option" where
  "Element_init u reg c cs attributes =
     raise_or (validate_attributes u c attributes)
       (case sole_Safe cs of
          Some s \<Rightarrow>
            bind_result (Safe_parse u reg (Element_init u reg) s) (\<lambda>new_children.
              raise_or (validate_elements u c attributes new_children)
                (Some (Inr (Element c new_children attributes))))
        | None \<Rightarrow>
            raise_or (validate_elements u c attributes cs)
              (Some (Inr (Element c cs attributes))))"


section \<open>Themes (styles/themes.py)\<close>

record Colors =
  primary :: string
  secondary :: string
  success :: string
  info :: string
  warning :: string
  danger :: string
  dark :: string
  light :: string
  white :: string
  black :: string

record FontSizes =
  small :: int
  medium :: int
  large :: int

record FontFamilies =
  headers :: string
  paragraphs :: string
  monospace :: string

record Fonts =
  families :: FontFamilies
  sizes :: FontSizes

text \<open>
  \<^verbatim>\<open>Theme\<close> is abstract (its \<^verbatim>\<open>name\<close> is an abstract property); the instances
  are those of its two subclasses, each declared with \<^verbatim>\<open>@dataclass\<close> and with
  \<^verbatim>\<open>name\<close> as a third field.
\<close>

datatype theme_class = DarkTheme | LightTheme

record Theme =
  theme_cls :: theme_class
  fonts :: Fonts
  colors :: Colors
  name :: string

datatype pyobject = ThemeObj Theme | OtherObj string

definition default_Colors :: Colors where
  "default_Colors = \<lparr>primary = ''#0d6efd'', secondary = ''#6c757d'', success = ''#198754'',
     info = ''#0dcaf0'', warning = ''#ffc107'', danger = ''#dc3545'', dark = ''#313539'',
     light = ''#f8f9fa'', white = ''#fff'', black = ''#222''\<rparr>"

definition default_Fonts :: Fonts where
  "default_Fonts = \<lparr>families = \<lparr>headers = ''serif'', paragraphs = ''sans-serif'',
       monospace = ''monospace''\<rparr>,
     sizes = \<lparr>small = 12, medium = 14, large = 20\<rparr>\<rparr>"

text \<open>\<^verbatim>\<open>DarkTheme(fonts=f, colors=c, name=n)\<close>, each argument defaulted as declared.\<close>

definition new_DarkTheme :: "Fonts option \<Rightarrow> Colors option \<Rightarrow> string option \<Rightarrow> Theme" where
  "new_DarkTheme f c n =
     \<lparr>theme_cls = DarkTheme,
      fonts = (case f of None \<Rightarrow> default_Fonts | Some x \<Rightarrow> x),
      colors = (case c of None \<Rightarrow> default_Colors | Some x \<Rightarrow> x),
      name = (case n of None \<Rightarrow> ''dark'' | Some x \<Rightarrow> x)\<rparr>"

definition new_LightTheme :: "Fonts option \<Rightarrow> Colors option \<Rightarrow> string option \<Rightarrow> Theme" where
  "new_LightTheme f c n =
     \<lparr>theme_cls = LightTheme,
      fonts = (case f of None \<Rightarrow> default_Fonts | Some x \<Rightarrow> x),
      colors = (case c of
         None \<Rightarrow> default_Colors\<lparr>primary := ''#c2e7fd'', secondary := ''#fefefe'',
           success := ''#c9ffad'', info := ''#fff080'', warning := ''#ffc280'',
           danger := ''#ffaca1'', light := ''#f8f8f8'', dark := ''#414549''\<rparr>
       | Some x \<Rightarrow> x),
      name = (case n of None \<Rightarrow> ''light'' | Some x \<Rightarrow> x)\<rparr>"

text \<open>\<^verbatim>\<open>Theme.__eq__\<close> as written (themes.py 94--95).\<close>

definition Theme_eq :: "Theme \<Rightarrow> pyobject \<Rightarrow> bool" where
  "Theme_eq self other =
     (case other of ThemeObj t \<Rightarrow> name self = name t | OtherObj _ \<Rightarrow> False)"

text \<open>
  The \<^verbatim>\<open>__eq__\<close> that \<^verbatim>\<open>@dataclass\<close> (themes.py 107 and 113, \<^verbatim>\<open>eq\<close> left at
  its default) writes into \<^verbatim>\<open>DarkTheme\<close> and \<^verbatim>\<open>LightTheme\<close>: neither class
  defines \<^verbatim>\<open>__eq__\<close> in its own body, so the decorator adds one, which hides the
  inherited \<^verbatim>\<open>Theme.__eq__\<close>.  It compares the fields in order when both
  operands have the same class and is \<^verbatim>\<open>NotImplemented\<close> (\<open>None\<close>) otherwise.
\<close>

definition dataclass_eq :: "Theme \<Rightarrow> Theme \<Rightarrow> bool option" where
  "dataclass_eq self other =
     (if theme_cls other = theme_cls self
      then Some (fonts self = fonts other \<and> colors self = colors other \<and> name self = name other)
      else None)"

text \<open>
  \<^verbatim>\<open>t1 == t2\<close> on two theme instances: \<^verbatim>\<open>type(t1).__eq__(t1, t2)\<close>, then the
  reflected call when that is \<^verbatim>\<open>NotImplemented\<close>, then identity; two instances of
  different classes are never the same object.
\<close>

definition theme_equals :: "Theme \<Rightarrow> Theme \<Rightarrow> bool" where
  "theme_equals t1 t2 =
     (case dataclass_eq t1 t2 of
        Some b \<Rightarrow> b
      | None \<Rightarrow> (case dataclass_eq t2 t1 of Some b \<Rightarrow> b | None \<Rightarrow> False))"

section \<open>Notions the results are stated with\<close>

text \<open>
  The resolution loop cut off after \<open>n\<close> calls of \<^verbatim>\<open>render\<close>: its outcome when it
  ends within that many calls, \<open>None\<close> when it is still running.
\<close>

fun resolve_within :: "render_table \<Rightarrow> nat \<Rightarrow> element \<Rightarrow> (error + element) option" where
  "resolve_within rt 0 d = (if \<not> has_html_name d then None else Some (Inr d))"
| "resolve_within rt (Suc n) d =
     (if \<not> has_html_name d
      then (case render rt d of
              Inl e \<Rightarrow> Some (Inl e)
            | Inr d' \<Rightarrow> resolve_within rt n d')
      else Some (Inr d))"

text \<open>A text on a line of its own, indented for the given level.\<close>

definition own_line :: "nat \<Rightarrow> string \<Rightarrow> string" where
  "own_line level txt = CHR 0x0A # indent_of True level @ txt"

text \<open>
  A parsed child that \<^verbatim>\<open>Safe.parse\<close> gets past: a text, or a tag that is registered
  and whose constructor call returns an element.
\<close>

definition constructs ::
  "registry \<Rightarrow> (pyclass \<Rightarrow> child list \<Rightarrow> attrs \<Rightarrow> (error + element) option) \<Rightarrow> parsed
     \<Rightarrow> bool" where
  "constructs reg construct p =
     (case p of
        Text s \<Rightarrow> True
      | Tag tg cs as \<Rightarrow>
          (case reg tg of
             None \<Rightarrow> False
           | Some element_type \<Rightarrow>
               (case construct element_type cs as of Some (Inr e) \<Rightarrow> True | _ \<Rightarrow> False)))"

text \<open>
  What one pass of the loop of \<^verbatim>\<open>Safe.parse\<close> does with a parsed child: the child
  it appends, the exception it raises, or \<open>None\<close> when the constructor call does not
  return.
\<close>

definition child_outcome ::
  "registry \<Rightarrow> (pyclass \<Rightarrow> child list \<Rightarrow> attrs \<Rightarrow> (error + element) option) \<Rightarrow> parsed
     \<Rightarrow> (error + child) option" where
  "child_outcome reg construct p =
     (case p of
        Text s \<Rightarrow> Some (Inr (Safe s))
      | Tag tg cs as \<Rightarrow>
          (case reg tg of
             None \<Rightarrow> Some (Inl (TypeError_not_found tg))
           | Some element_type \<Rightarrow>
               bind_result (construct element_type cs as) (\<lambda>element. Some (Inr (Elem element)))))"

text \<open>
  The rows of the tables of \<^verbatim>\<open>html.entities\<close> that \<^verbatim>\<open>html.unescape\<close> reads on the
  output of \<^verbatim>\<open>html.escape\<close>: the four named references, and code point 39 (the
  apostrophe) in neither table of invalid references.  Python's tables have them.
\<close>

definition entities_ok :: "charrefs \<Rightarrow> bool" where
  "entities_ok t =
     (map_of (html5 t) ''amp;'' = Some ''&'' \<and> map_of (html5 t) ''lt;'' = Some ''<'' \<and>
      map_of (html5 t) ''gt;'' = Some ''>'' \<and> map_of (html5 t) ''quot;'' = Some [CHR 0x22] \<and>
      map_of (invalid_charrefs t) 39 = None \<and> 39 \<notin> set (invalid_codepoints t))"

text \<open>What the five replacements of \<open>html_escape\<close> do to one character.\<close>

definition escape_char :: "char \<Rightarrow> string" where
  "escape_char c =
     (if c = CHR ''&'' then ''&amp;'' else if c = CHR ''<'' then ''&lt;''
      else if c = CHR ''>'' then ''&gt;'' else if c = CHR 0x22 then ''&quot;''
      else if c = CHR 0x27 then ''&#x27;'' else [c])"

section \<open>Example values\<close>

text \<open>
  Three element classes as \<^verbatim>\<open>ludic/html.py\<close> declares them, a component class
  \<^verbatim>\<open>Page\<close> whose \<^verbatim>\<open>render\<close> returns a \<^verbatim>\<open>div\<close> with the same children, and a
  subclass \<^verbatim>\<open>Plain\<close> of \<^verbatim>\<open>Element\<close> with neither \<^verbatim>\<open>html_name\<close> nor a
  \<^verbatim>\<open>render\<close> of its own.
\<close>

definition div_class :: pyclass where
  "div_class = \<lparr>cls_name = ''div'', html_name = Some ''div'', always_pair = True\<rparr>"

definition b_class :: pyclass where
  "b_class = \<lparr>cls_name = ''b'', html_name = Some ''b'', always_pair = True\<rparr>"

definition br_class :: pyclass where
  "br_class = \<lparr>cls_name = ''br'', html_name = Some ''br'', always_pair = False\<rparr>"

definition Page_class :: pyclass where
  "Page_class = \<lparr>cls_name = ''Page'', html_name = None, always_pair = False\<rparr>"

definition Plain_class :: pyclass where
  "Plain_class = \<lparr>cls_name = ''Plain'', html_name = None, always_pair = False\<rparr>"

definition sample_renders :: render_table where
  "sample_renders =
     [''Page'' \<mapsto> (\<lambda>self. Inr (Element div_class (children self) []))]"

definition sample_registry :: registry where
  "sample_registry = [''b'' \<mapsto> b_class, ''div'' \<mapsto> div_class]"

text \<open>
  Stand-ins for the helpers of \<^verbatim>\<open>ludic/utils.py\<close>: a parser that knows five
  inputs, an attribute validator that rejects the attribute \<^verbatim>\<open>bad\<close>, and attribute
  formatters that write \<^verbatim>\<open>key=value\<close>.
\<close>

definition sample_format :: "string \<Rightarrow> attr_value \<Rightarrow> string" where
  "sample_format key v =
     key @ ''='' @
       (case v of
          AttrStr s \<Rightarrow> s
        | AttrBool b \<Rightarrow> (if b then ''True'' else ''False'')
        | AttrInt i \<Rightarrow> str_int i)"

definition sample_utils :: utils where
  "sample_utils =
     \<lparr>parse_elements = (\<lambda>s.
        if s = ''Hi <b>x</b>'' then Inr [Text ''Hi '', Tag ''b'' [Str ''x''] []]
        else if s = ''<b bad>x</b><Bogus>y</Bogus>''
          then Inr [Tag ''b'' [Str ''x''] [(''bad'', AttrBool True)], Tag ''Bogus'' [Str ''y''] []]
        else if s = ''<Bogus>x</Bogus>'' then Inr [Tag ''Bogus'' [Str ''x''] []]
        else if s = ''Hi <b>x</b><Bogus>y</Bogus>!''
          then Inr [Text ''Hi '', Tag ''b'' [Str ''x''] [], Tag ''Bogus'' [Str ''y''] [], Text ''!'']
        else if s = ''Hi <b bad>x</b><Bogus>y</Bogus>''
          then Inr [Text ''Hi '', Tag ''b'' [Str ''x''] [(''bad'', AttrBool True)],
                    Tag ''Bogus'' [Str ''y''] []]
        else Inr [Text s]),
      validate_attributes = (\<lambda>c as.
        if ''bad'' \<in> set (map fst as) then Some (Raised ''ShapeError'') else None),
      validate_elements = (\<lambda>c as cs. None),
      format_attribute = sample_format,
      format_html_attribute = sample_format\<rparr>"

definition sample_charrefs :: charrefs where
  "sample_charrefs =
     \<lparr>html5 = [(''amp;'', ''&''), (''amp'', ''&''), (''lt;'', ''<''), (''gt;'', ''>''),
               (''quot;'', [CHR 0x22])],
      invalid_charrefs = [(0, chr 0xFFFD), (13, [CHR 0x0D])],
      invalid_codepoints = [1, 2, 3, 4, 5, 6, 7, 8]\<rparr>"

text \<open>\<^verbatim>\<open>Plain()\<close>: its \<^verbatim>\<open>render\<close> is \<^verbatim>\<open>Element.render\<close>, which returns it.\<close>

definition looping :: element where
  "looping = Element Plain_class [] []"

text \<open>\<^verbatim>\<open>div("a", "b")\<close>.\<close>

definition two_texts :: element where
  "two_texts = Element div_class [Str ''a'', Str ''b''] []"

text \<open>\<^verbatim>\<open>DarkTheme(colors=Colors(primary=Color("#000000")))\<close>.\<close>

definition black_dark :: Theme where
  "black_dark = new_DarkTheme None (Some (default_Colors\<lparr>primary := ''#000000''\<rparr>)) None"

section \<open>Text escaping: lemmas\<close>

lemma replace_char_Cons:
  "replace_char c r (x # xs) = (if x = c then r else [x]) @ replace_char c r xs"
  by (simp add: replace_char_def)

lemma replace_char_append:
  "replace_char c r (xs @ ys) = replace_char c r xs @ replace_char c r ys"
  by (simp add: replace_char_def)

lemma replace_char_Nil: "replace_char c r [] = []"
  by (simp add: replace_char_def)

lemma html_escape_Cons: "html_escape (x # xs) = escape_char x @ html_escape xs"
  by (simp add: html_escape_def escape_char_def Let_def replace_char_Cons replace_char_append
      replace_char_Nil)

lemma html_escape_Nil: "html_escape [] = []"
  by (simp add: html_escape_def replace_char_Nil)

lemma charref_sub_no_amp: "CHR ''&'' \<notin> set s \<Longrightarrow> charref_sub t s = s"
  by (induction s) auto

lemma html_unescape_sub: "html_unescape t s = charref_sub t s"
  by (simp add: html_unescape_def charref_sub_no_amp)

lemma match_amp: "match_charref (''amp;'' @ r) = Some (''amp;'', r)"
  by (simp add: match_charref_def is_name_char_def opt_semicolon_def)

lemma match_lt: "match_charref (''lt;'' @ r) = Some (''lt;'', r)"
  by (simp add: match_charref_def is_name_char_def opt_semicolon_def)

lemma match_gt: "match_charref (''gt;'' @ r) = Some (''gt;'', r)"
  by (simp add: match_charref_def is_name_char_def opt_semicolon_def)

lemma match_quot: "match_charref (''quot;'' @ r) = Some (''quot;'', r)"
  by (simp add: match_charref_def is_name_char_def opt_semicolon_def)

lemma match_x27: "match_charref (''#x27;'' @ r) = Some (''#x27;'', r)"
  by (simp add: match_charref_def is_digit_def is_hexdigit_def opt_semicolon_def)

lemma chr_39: "chr 39 = [CHR 0x27]"
  by code_simp

lemma replace_x27: "entities_ok t \<Longrightarrow> replace_charref t ''#x27;'' = [CHR 0x27]"
  by (simp add: replace_charref_def entities_ok_def int_of_digits_def digit_val_def
      rstrip_semicolon_def chr_39)

lemma replace_named:
  assumes "entities_ok t"
  shows "replace_charref t ''amp;'' = ''&''" "replace_charref t ''lt;'' = ''<''"
    "replace_charref t ''gt;'' = ''>''" "replace_charref t ''quot;'' = [CHR 0x22]"
  using assms by (simp_all add: replace_charref_def entities_ok_def)

lemma charref_sub_escape_char:
  assumes "entities_ok t"
  shows "charref_sub t (escape_char c @ r) = c # charref_sub t r"
proof -
  have amp: "charref_sub t (''&amp;'' @ r) = CHR ''&'' # charref_sub t r"
    using match_amp [of r] replace_named(1) [OF assms] by simp
  have lt: "charref_sub t (''&lt;'' @ r) = CHR ''<'' # charref_sub t r"
    using match_lt [of r] replace_named(2) [OF assms] by simp
  have gt: "charref_sub t (''&gt;'' @ r) = CHR ''>'' # charref_sub t r"
    using match_gt [of r] replace_named(3) [OF assms] by simp
  have quot: "charref_sub t (''&quot;'' @ r) = CHR 0x22 # charref_sub t r"
    using match_quot [of r] replace_named(4) [OF assms] by simp
  have apos: "charref_sub t (''&#x27;'' @ r) = CHR 0x27 # charref_sub t r"
    using match_x27 [of r] replace_x27 [OF assms] by simp
  show ?thesis
    unfolding escape_char_def using amp lt gt quot apos by simp
qed

lemma charref_sub_html_escape: "entities_ok t \<Longrightarrow> charref_sub t (html_escape s) = s"
  by (induction s) (simp_all add: html_escape_Nil html_escape_Cons charref_sub_escape_char)

lemma html_unescape_escape: "entities_ok t \<Longrightarrow> html_unescape t (html_escape s) = s"
  by (simp add: html_unescape_sub charref_sub_html_escape)

section \<open>The resolution loop: lemmas\<close>

lemma resolve_concrete: "has_html_name d \<Longrightarrow> resolve rt d = Some (Inr d)"
  by (subst resolve.simps) simp

lemma resolve_within_resolve:
  "resolve_within rt n d = Some r \<Longrightarrow> resolve rt d = Some r"
proof (induction n arbitrary: d)
  case 0
  then show ?case by (subst resolve.simps) (simp split: if_splits)
next
  case (Suc n)
  then show ?case
    by (subst resolve.simps) (auto split: if_splits sum.splits)
qed

lemma resolve_resolve_within:
  assumes "resolve rt d = Some r"
  shows "\<exists>n. resolve_within rt n d = Some r"
proof (rule resolve.raw_induct [OF _ assms])
  fix f rt d r
  assume IH: "\<And>rt d r. f rt d = Some r \<Longrightarrow> \<exists>n. resolve_within rt n d = Some r"
    and body: "(if \<not> has_html_name d
                then case render rt d of Inl e \<Rightarrow> Some (Inl e) | Inr d' \<Rightarrow> f rt d'
                else Some (Inr d)) = Some r"
  show "\<exists>n. resolve_within rt n d = Some r"
  proof (cases "has_html_name d")
    case True
    with body have "resolve_within rt 0 d = Some r" by simp
    then show ?thesis ..
  next
    case False
    show ?thesis
    proof (cases "render rt d")
      case (Inl e)
      with False body have "resolve_within rt (Suc 0) d = Some r" by auto
      then show ?thesis ..
    next
      case (Inr d')
      with False body have "f rt d' = Some r" by simp
      from IH [OF this] obtain n where "resolve_within rt n d' = Some r" ..
      with False Inr have "resolve_within rt (Suc n) d = Some r" by simp
      then show ?thesis ..
    qed
  qed
qed

lemma resolve_None_iff: "resolve rt d = None \<longleftrightarrow> (\<forall>n. resolve_within rt n d = None)"
proof
  assume "resolve rt d = None"
  then show "\<forall>n. resolve_within rt n d = None"
    using resolve_within_resolve by (metis option.exhaust option.distinct(1))
next
  assume h: "\<forall>n. resolve_within rt n d = None"
  show "resolve rt d = None"
  proof (cases "resolve rt d")
    case (Some r)
    then show ?thesis using resolve_resolve_within h by fastforce
  qed simp
qed

lemma looping_within: "resolve_within Map.empty n looping = None"
  by (induction n)
    (simp_all add: looping_def Plain_class_def render_def Element_render_def has_html_name_def)

section \<open>\<^verbatim>\<open>to_html\<close> and \<^verbatim>\<open>to_string\<close>: lemmas\<close>

lemma to_html_concrete:
  assumes "html_name (cls d) = Some tg"
  shows "to_html u rt d =
     (if children d \<noteq> [] \<or> always_pair (cls d)
      then bind_result (format_children (default_html_formatter (to_html u rt)) d)
             (\<lambda>children_str.
                Some (Inr (html_open_tag u tg d @ ''>'' @ children_str @ ''</'' @ tg @ ''>'')))
      else Some (Inr (html_open_tag u tg d @ '' />'')))"
proof -
  from assms have "has_html_name d" by (simp add: has_html_name_def)
  then have "resolve rt d = Some (Inr d)" by (rule resolve_concrete)
  then show ?thesis
    by (subst to_html.simps) (simp add: bind_result_def assms)
qed

lemma to_html_diverges: "resolve rt d = None \<Longrightarrow> to_html u rt d = None"
  by (subst to_html.simps) (simp add: bind_result_def)

lemma sample_entities_ok: "entities_ok sample_charrefs"
  by (simp add: entities_ok_def sample_charrefs_def)

lemma to_string_unfold:
  "to_string u pretty level self =
     (let indent = indent_of pretty level;
          nm = cls_name (cls self);
          element = string_open_tag u pretty level self
      in if children self \<noteq> [] then
           (let children_str = concat (map (to_string_child u pretty (level + 1)) (children self))
            in if pretty then
                 (if is_simple self then
                    (if has_attributes self
                     then element @ ''>'' @ [CHR 0x0A] @ indent @ ''  '' @ children_str
                            @ [CHR 0x0A] @ indent @ ''</'' @ nm @ ''>''
                     else element @ ''>'' @ children_str @ ''</'' @ nm @ ''>'')
                  else element @ ''>'' @ indent @ ''  '' @ children_str
                         @ [CHR 0x0A] @ indent @ ''</'' @ nm @ ''>'')
               else element @ ''>'' @ children_str @ ''</'' @ nm @ ''>'')
         else element @ '' />'')"
  by (cases self) (simp add: Let_def)

lemma to_string_child_primitive:
  "is_primitive c \<Longrightarrow> to_string_child u pretty level c = str_primitive c"
  by (cases c) (simp_all add: is_primitive_def)

lemma to_string_starts_own_line:
  "\<exists>rest. to_string u True (Suc level) e =
     own_line (Suc level) (''<'' @ cls_name (cls e) @ rest)"
  by (cases e) (simp add: own_line_def string_open_tag_def Let_def del: replicate.simps)

text \<open>
  The branches of \<^verbatim>\<open>to_string\<close> in pretty mode (base.py 195--213), one by one, and
  what the formatter gives for a primitive and for an element child.
\<close>

lemma to_string_pretty_layout:
  "(children e = [] \<longrightarrow>
      to_string u True level e = string_open_tag u True level e @ '' />'') \<and>
   (is_simple e \<and> \<not> has_attributes e \<longrightarrow>
      to_string u True level e =
        string_open_tag u True level e @ ''>'' @ str_primitive (hd (children e))
          @ ''</'' @ cls_name (cls e) @ ''>'') \<and>
   (is_simple e \<and> has_attributes e \<longrightarrow>
      to_string u True level e =
        string_open_tag u True level e @ ''>'' @ [CHR 0x0A] @ indent_of True level @ ''  ''
          @ str_primitive (hd (children e))
          @ [CHR 0x0A] @ indent_of True level @ ''</'' @ cls_name (cls e) @ ''>'') \<and>
   (children e \<noteq> [] \<and> \<not> is_simple e \<longrightarrow>
      to_string u True level e =
        string_open_tag u True level e @ ''>'' @ indent_of True level @ ''  ''
          @ concat (map (to_string_child u True (level + 1)) (children e))
          @ [CHR 0x0A] @ indent_of True level @ ''</'' @ cls_name (cls e) @ ''>'' \<and>
      (\<forall>c \<in> set (children e).
         (is_primitive c \<longrightarrow> to_string_child u True (level + 1) c = str_primitive c) \<and>
         (\<forall>e'. c = Elem e' \<longrightarrow>
            (\<exists>rest. to_string_child u True (level + 1) c =
               own_line (level + 1) (''<'' @ cls_name (cls e') @ rest)))))"
proof (intro conjI impI ballI allI)
  assume "children e = []"
  then show "to_string u True level e = string_open_tag u True level e @ '' />''"
    by (simp add: to_string_unfold)
next
  assume h: "is_simple e \<and> \<not> has_attributes e"
  then obtain c where c: "children e = [c]" "is_primitive c"
    by (cases "children e") (auto simp: is_simple_def)
  with h show "to_string u True level e =
        string_open_tag u True level e @ ''>'' @ str_primitive (hd (children e))
          @ ''</'' @ cls_name (cls e) @ ''>''"
    by (simp add: to_string_unfold [of u True level e] Let_def to_string_child_primitive)
next
  assume h: "is_simple e \<and> has_attributes e"
  then obtain c where c: "children e = [c]" "is_primitive c"
    by (cases "children e") (auto simp: is_simple_def)
  with h show "to_string u True level e =
        string_open_tag u True level e @ ''>'' @ [CHR 0x0A] @ indent_of True level @ ''  ''
          @ str_primitive (hd (children e))
          @ [CHR 0x0A] @ indent_of True level @ ''</'' @ cls_name (cls e) @ ''>''"
    by (simp add: to_string_unfold [of u True level e] Let_def to_string_child_primitive)
next
  assume "children e \<noteq> [] \<and> \<not> is_simple e"
  then show "to_string u True level e =
        string_open_tag u True level e @ ''>'' @ indent_of True level @ ''  ''
          @ concat (map (to_string_child u True (level + 1)) (children e))
          @ [CHR 0x0A] @ indent_of True level @ ''</'' @ cls_name (cls e) @ ''>''"
    by (simp add: to_string_unfold [of u True level e] Let_def)
next
  fix c assume "is_primitive c"
  then show "to_string_child u True (level + 1) c = str_primitive c"
    by (rule to_string_child_primitive)
next
  fix c e' assume "c = Elem e'"
  then show "\<exists>rest. to_string_child u True (level + 1) c =
               own_line (level + 1) (''<'' @ cls_name (cls e') @ rest)"
    using to_string_starts_own_line [of u level e'] by simp
qed

lemma to_string_pretty_examples:
  "to_string sample_utils True 0 (Element div_class [] []) = ''<div />'' \<and>
   to_string sample_utils True 0 (Element b_class [Str ''x''] []) = ''<b>x</b>'' \<and>
   to_string sample_utils True 0 (Element b_class [Str ''x''] [(''id'', AttrStr ''k'')])
     = ''<b id=k>'' @ [CHR 0x0A] @ ''  x'' @ [CHR 0x0A] @ ''</b>'' \<and>
   to_string sample_utils True 0
       (Element div_class [Elem (Element b_class [Str ''x''] []), Str ''y''] [])
     = ''<div>  '' @ own_line 1 ''<b>x</b>'' @ ''y'' @ [CHR 0x0A] @ ''</div>''"
  using to_string_pretty_layout [of "Element div_class [] []" sample_utils 0, THEN conjunct1]
    to_string_pretty_layout [of "Element b_class [Str ''x''] []" sample_utils 0,
      THEN conjunct2, THEN conjunct1]
    to_string_pretty_layout [of "Element b_class [Str ''x''] [(''id'', AttrStr ''k'')]"
      sample_utils 0, THEN conjunct2, THEN conjunct2, THEN conjunct1]
    to_string_pretty_layout
      [of "Element div_class [Elem (Element b_class [Str ''x''] []), Str ''y''] []"
        sample_utils 0, THEN conjunct2, THEN conjunct2, THEN conjunct2, THEN mp, THEN conjunct1]
  by (simp add: div_class_def b_class_def is_simple_def is_primitive_def has_attributes_def
      string_open_tag_def indent_of_def str_primitive_def own_line_def format_attributes_def
      join_def sample_utils_def sample_format_def)

lemma check_textual_None:
  "check_textual self cs = None \<longleftrightarrow> (\<forall>c \<in> set cs. is_primitive c)"
  by (induction self cs rule: check_textual.induct) (simp_all add: is_primitive_def)

lemma check_textual_Some:
  "check_textual self cs = Some err \<Longrightarrow>
     \<exists>e'. Elem e' \<in> set cs \<and> err = TypeError_textual (cls_name (cls self)) (cls_name (cls e'))"
  by (induction self cs rule: check_textual.induct) auto

section \<open>Construction: lemmas\<close>

lemma sole_Safe_iff: "sole_Safe cs = Some s \<longleftrightarrow> cs = [Safe s]"
  by (cases cs) (auto simp: sole_Safe_def split: child.splits)

lemma bind_result_Inr_iff:
  "bind_result m k = Some (Inr y) \<longleftrightarrow> (\<exists>x. m = Some (Inr x) \<and> k x = Some (Inr y))"
  by (cases m) (auto simp: bind_result_def split: sum.splits)

lemma parse_children_unknown_never:
  "Tag tg cs as \<in> set ps \<Longrightarrow> reg tg = None \<Longrightarrow> parse_children reg construct ps \<noteq> Some (Inr r)"
proof (induction reg construct ps arbitrary: r rule: parse_children.induct)
  case (1 reg construct)
  then show ?case by simp
next
  case (2 reg construct s rest)
  then show ?case by (auto simp: bind_result_Inr_iff)
next
  case (3 reg construct tg' cs' as' rest)
  show ?case
  proof (cases "reg tg'")
    case None
    then show ?thesis by simp
  next
    case (Some element_type)
    with 3 have "Tag tg cs as \<in> set rest" by auto
    with 3 Some show ?thesis by (auto simp: bind_result_Inr_iff)
  qed
qed

lemma parse_children_first_unknown:
  "\<forall>p \<in> set pre. constructs reg construct p \<Longrightarrow> reg tg = None \<Longrightarrow>
     parse_children reg construct (pre @ Tag tg cs as # post) = Some (Inl (TypeError_not_found tg))"
proof (induction pre)
  case Nil
  then show ?case by simp
next
  case (Cons p pre)
  then have rest: "parse_children reg construct (pre @ Tag tg cs as # post)
      = Some (Inl (TypeError_not_found tg))" by simp
  from Cons.prems have p: "constructs reg construct p" by simp
  show ?case
  proof (cases p)
    case (Text s)
    with rest show ?thesis by (simp add: bind_result_def)
  next
    case (Tag tg' cs' as')
    with p rest show ?thesis
      by (auto simp: constructs_def bind_result_def split: option.splits sum.splits)
  qed
qed

lemma parse_children_Cons:
  "parse_children reg construct (p # rest) =
     bind_result (child_outcome reg construct p) (\<lambda>c.
       bind_result (parse_children reg construct rest) (\<lambda>new_children.
         Some (Inr (c # new_children))))"
proof (cases p)
  case (Text s)
  then show ?thesis by (simp add: child_outcome_def bind_result_def)
next
  case (Tag tg cs as)
  then show ?thesis
    by (cases "reg tg"; cases "construct (the (reg tg)) cs as")
      (auto simp: child_outcome_def bind_result_def split: sum.splits)
qed

lemma constructs_iff:
  "constructs reg construct p \<longleftrightarrow> (\<exists>c. child_outcome reg construct p = Some (Inr c))"
  by (cases p)
    (auto simp: constructs_def child_outcome_def bind_result_def split: option.splits sum.splits)

lemma not_constructs_cases:
  "\<not> constructs reg construct p \<Longrightarrow>
     child_outcome reg construct p = None \<or> (\<exists>e. child_outcome reg construct p = Some (Inl e))"
proof (cases "child_outcome reg construct p")
  case None
  then show ?thesis by simp
next
  case (Some x)
  assume n: "\<not> constructs reg construct p"
  show ?thesis
  proof (cases x)
    case (Inl e)
    with Some show ?thesis by simp
  next
    case (Inr c)
    with Some n show ?thesis by (simp add: constructs_iff)
  qed
qed

lemma parse_children_skip:
  "\<forall>p \<in> set pre. constructs reg construct p \<Longrightarrow>
   \<forall>r. parse_children reg construct rest \<noteq> Some (Inr r) \<Longrightarrow>
     parse_children reg construct (pre @ rest) = parse_children reg construct rest"
proof (induction pre)
  case Nil
  then show ?case by simp
next
  case (Cons p pre)
  then have IH: "parse_children reg construct (pre @ rest) = parse_children reg construct rest"
    by simp
  from Cons.prems obtain c where c: "child_outcome reg construct p = Some (Inr c)"
    by (auto simp: constructs_iff)
  show ?case
  proof (cases "parse_children reg construct rest")
    case None
    with IH c show ?thesis by (simp add: parse_children_Cons bind_result_def)
  next
    case (Some x)
    with Cons.prems(2) obtain e where "x = Inl e" by (cases x) auto
    with Some IH c show ?thesis by (simp add: parse_children_Cons bind_result_def)
  qed
qed

lemma parse_children_first_failure:
  assumes "\<forall>q \<in> set pre1. constructs reg construct q"
  shows "(child_outcome reg construct p = None \<longrightarrow>
            parse_children reg construct (pre1 @ p # rest) = None) \<and>
         (\<forall>e. child_outcome reg construct p = Some (Inl e) \<longrightarrow>
            parse_children reg construct (pre1 @ p # rest) = Some (Inl e))"
proof (intro conjI impI allI)
  assume h: "child_outcome reg construct p = None"
  then have "parse_children reg construct (p # rest) = None"
    by (simp add: parse_children_Cons bind_result_def)
  with parse_children_skip [OF assms, of "p # rest"]
  show "parse_children reg construct (pre1 @ p # rest) = None" by simp
next
  fix e assume h: "child_outcome reg construct p = Some (Inl e)"
  then have "parse_children reg construct (p # rest) = Some (Inl e)"
    by (simp add: parse_children_Cons bind_result_def)
  with parse_children_skip [OF assms, of "p # rest"]
  show "parse_children reg construct (pre1 @ p # rest) = Some (Inl e)" by simp
qed

text \<open>
  The constructor keeps a sole \<open>Safe\<close> child as it is when the parser finds no tag in
  it.
\<close>

lemma Element_init_Safe_text:
  assumes "validate_attributes u c as = None" and "parse_elements u s = Inr [Text s]"
    and "validate_elements u c as [Safe s] = None"
  shows "Element_init u reg c [Safe s] as = Some (Inr (Element c [Safe s] as))"
  using assms
  by (subst Element_init.simps)
    (simp add: raise_or_def sole_Safe_def Safe_parse_def bind_result_def)

lemma init_b_x:
  "Element_init sample_utils sample_registry b_class [Str ''x''] []
     = Some (Inr (Element b_class [Str ''x''] []))"
  by (subst Element_init.simps) (simp add: raise_or_def sole_Safe_def sample_utils_def)

lemma init_b_bad:
  "Element_init sample_utils sample_registry b_class [Str ''x''] [(''bad'', AttrBool True)]
     = Some (Inl (Raised ''ShapeError''))"
  by (subst Element_init.simps) (simp add: raise_or_def sole_Safe_def sample_utils_def)

section \<open>Themes: lemmas\<close>

lemma Theme_eq_by_name:
  "Theme_eq t1 other \<longleftrightarrow> (\<exists>t2. other = ThemeObj t2 \<and> name t1 = name t2)"
  by (cases other) (simp_all add: Theme_eq_def)

lemma theme_equals_fields:
  "theme_equals t1 t2 \<longleftrightarrow>
     theme_cls t1 = theme_cls t2 \<and> fonts t1 = fonts t2 \<and> colors t1 = colors t2 \<and>
     name t1 = name t2"
  by (auto simp: theme_equals_def dataclass_eq_def)

section \<open>Results\<close>

text \<open>
  C1: for a string \<open>s\<close> that is the only child of a concrete element, \<^verbatim>\<open>to_html\<close>
  writes the escaped \<open>s\<close> between the opening and the closing tag, and unescaping
  that text gives \<open>s\<close> back; when the child is the trusted string \<open>Safe s\<close>,
  \<^verbatim>\<open>to_html\<close> writes \<open>s\<close> itself there, unescaped.  The children are those the
  element holds when \<^verbatim>\<open>to_html\<close> runs.
\<close>

theorem to_html_text_child:
  "html_name c = Some tg \<Longrightarrow> entities_ok t \<Longrightarrow>
     to_html u rt (Element c [Str s] as) =
       Some (Inr (html_open_tag u tg (Element c [Str s] as) @ ''>'' @ html_escape s
                    @ ''</'' @ tg @ ''>'')) \<and>
     html_unescape t (html_escape s) = s \<and>
     to_html u rt (Element c [Safe s] as) =
       Some (Inr (html_open_tag u tg (Element c [Safe s] as) @ ''>'' @ s @ ''</'' @ tg @ ''>''))"
proof (intro conjI)
  assume c: "html_name c = Some tg" and t: "entities_ok t"
  show "to_html u rt (Element c [Str s] as) =
       Some (Inr (html_open_tag u tg (Element c [Str s] as) @ ''>'' @ html_escape s
                    @ ''</'' @ tg @ ''>''))"
    using c
    by (subst to_html_concrete [where tg = tg])
      (simp_all add: format_children_def default_html_formatter_def bind_result_def)
  show "html_unescape t (html_escape s) = s"
    using t by (rule html_unescape_escape)
  show "to_html u rt (Element c [Safe s] as) =
       Some (Inr (html_open_tag u tg (Element c [Safe s] as) @ ''>'' @ s @ ''</'' @ tg @ ''>''))"
    using c
    by (subst to_html_concrete [where tg = tg])
      (simp_all add: format_children_def default_html_formatter_def bind_result_def
        str_primitive_def)
qed

theorem to_html_text_child_witness:
  "to_html sample_utils Map.empty (Element div_class [Str ''a<b''] [])
     = Some (Inr ''<div>a&lt;b</div>'') \<and>
   html_unescape sample_charrefs ''a&lt;b'' = ''a<b'' \<and>
   to_html sample_utils Map.empty (Element div_class [Safe ''a<b''] [])
     = Some (Inr ''<div>a<b</div>'')"
  using to_html_text_child [where c = div_class and tg = "''div''" and t = sample_charrefs
      and u = sample_utils and rt = Map.empty and s = "''a<b''" and as = "[]"]
    sample_entities_ok
  by (simp add: div_class_def html_open_tag_def has_attributes_def html_escape_Cons
      html_escape_Nil escape_char_def)

text \<open>
  C2: a concrete node with no children is written by \<^verbatim>\<open>to_html\<close> as the self-closing
  tag \<^verbatim>\<open><tag ... />\<close> when \<^verbatim>\<open>always_pair\<close> is false and as the pair
  \<^verbatim>\<open><tag ...></tag>\<close> when it is true.
\<close>

theorem to_html_no_children:
  assumes "html_name (cls d) = Some tg" and "children d = []"
  shows "to_html u rt d =
     Some (Inr (if always_pair (cls d)
                then html_open_tag u tg d @ ''></'' @ tg @ ''>''
                else html_open_tag u tg d @ '' />''))"
  using assms
  by (simp add: to_html_concrete [OF assms(1)] format_children_def bind_result_def)

theorem to_html_no_children_witness:
  "to_html sample_utils Map.empty (Element br_class [] []) = Some (Inr ''<br />'') \<and>
   to_html sample_utils Map.empty (Element div_class [] [(''id'', AttrStr ''x'')])
     = Some (Inr ''<div id=x></div>'')"
  using to_html_no_children [of "Element br_class [] []" "''br''" sample_utils Map.empty]
    to_html_no_children [of "Element div_class [] [(''id'', AttrStr ''x'')]" "''div''"
      sample_utils Map.empty]
  by (simp add: br_class_def div_class_def html_open_tag_def has_attributes_def
      format_attributes_def join_def sample_utils_def sample_format_def)

text \<open>
  C3: on a concrete node \<open>n\<close> resolution does nothing: \<^verbatim>\<open>Element.render\<close> returns
  \<open>n\<close> (and so does \<^verbatim>\<open>n.render()\<close> for every class that keeps that method), the
  loop of \<^verbatim>\<open>to_html\<close> ends on \<open>n\<close> without a call of \<^verbatim>\<open>render\<close>, whatever the
  \<^verbatim>\<open>render\<close> methods are, and \<^verbatim>\<open>to_html\<close> serializes \<open>n\<close> itself.
\<close>

theorem concrete_node_resolution:
  "has_html_name n \<Longrightarrow>
     Element_render n = n \<and>
     (rt (cls_name (cls n)) = None \<longrightarrow> render rt n = Inr n) \<and>
     resolve_within rt 0 n = Some (Inr n) \<and>
     resolve rt n = Some (Inr n) \<and>
     (\<forall>tg. html_name (cls n) = Some tg \<longrightarrow>
        to_html u rt n =
          (if children n \<noteq> [] \<or> always_pair (cls n)
           then bind_result (format_children (default_html_formatter (to_html u rt)) n)
                  (\<lambda>children_str.
                     Some (Inr (html_open_tag u tg n @ ''>'' @ children_str @ ''</'' @ tg @ ''>'')))
           else Some (Inr (html_open_tag u tg n @ '' />''))))"
  using resolve_concrete [of n rt] to_html_concrete [of n _ u rt]
  by (simp add: Element_render_def render_def)

theorem concrete_node_resolution_witness:
  "has_html_name (Element br_class [] []) \<and>
   resolve sample_renders (Element br_class [] []) = Some (Inr (Element br_class [] [])) \<and>
   render sample_renders (Element br_class [] []) = Inr (Element br_class [] []) \<and>
   to_html sample_utils sample_renders (Element br_class [] []) = Some (Inr ''<br />'')"
proof -
  have h: "has_html_name (Element br_class [] [])"
    by (simp add: has_html_name_def br_class_def)
  show ?thesis
    using h concrete_node_resolution [OF h, of sample_renders sample_utils]
    by (simp add: br_class_def sample_renders_def html_open_tag_def has_attributes_def)
qed

text \<open>
  C4: the constructor validates the attributes first.  Then, when the children are one
  \<open>Safe\<close> string, it expands the string with \<^verbatim>\<open>Safe.parse\<close>, validates the expanded
  children and stores them; in every other case it validates the children it was
  given and stores those.  An exception of a validator or of \<^verbatim>\<open>Safe.parse\<close> ends the
  construction.
\<close>

theorem Element_init_children:
  "(validate_attributes u c as = Some err \<longrightarrow> Element_init u reg c cs as = Some (Inl err)) \<and>
   (validate_attributes u c as = None \<longrightarrow>
      (\<forall>s. cs = [Safe s] \<longrightarrow>
         Element_init u reg c cs as =
           bind_result (Safe_parse u reg (Element_init u reg) s) (\<lambda>new_children.
             case validate_elements u c as new_children of
               Some err \<Rightarrow> Some (Inl err)
             | None \<Rightarrow> Some (Inr (Element c new_children as)))) \<and>
      ((\<forall>s. cs \<noteq> [Safe s]) \<longrightarrow>
         Element_init u reg c cs as =
           (case validate_elements u c as cs of
              Some err \<Rightarrow> Some (Inl err)
            | None \<Rightarrow> Some (Inr (Element c cs as)))))"
proof (intro conjI impI allI)
  assume "validate_attributes u c as = Some err"
  then show "Element_init u reg c cs as = Some (Inl err)"
    by (subst Element_init.simps) (simp add: raise_or_def)
next
  fix s assume "validate_attributes u c as = None" "cs = [Safe s]"
  then show "Element_init u reg c cs as =
           bind_result (Safe_parse u reg (Element_init u reg) s) (\<lambda>new_children.
             case validate_elements u c as new_children of
               Some err \<Rightarrow> Some (Inl err)
             | None \<Rightarrow> Some (Inr (Element c new_children as)))"
    by (subst Element_init.simps) (simp add: raise_or_def sole_Safe_def)
next
  assume "validate_attributes u c as = None" "\<forall>s. cs \<noteq> [Safe s]"
  moreover from this have "sole_Safe cs = None"
    using sole_Safe_iff [of cs] by (cases "sole_Safe cs") auto
  ultimately show "Element_init u reg c cs as =
           (case validate_elements u c as cs of
              Some err \<Rightarrow> Some (Inl err)
            | None \<Rightarrow> Some (Inr (Element c cs as)))"
    by (subst Element_init.simps) (simp add: raise_or_def)
qed

theorem Element_init_children_witness:
  "Element_init sample_utils sample_registry div_class [Safe ''Hi <b>x</b>''] []
     = Some (Inr (Element div_class [Safe ''Hi '', Elem (Element b_class [Str ''x''] [])] [])) \<and>
   Element_init sample_utils sample_registry div_class [Str ''Hi <b>x</b>'', Safe ''y''] []
     = Some (Inr (Element div_class [Str ''Hi <b>x</b>'', Safe ''y''] []))"
  using Element_init_children
      [of sample_utils div_class "[]" _ sample_registry "[Safe ''Hi <b>x</b>'']"]
    Element_init_children
      [of sample_utils div_class "[]" _ sample_registry "[Str ''Hi <b>x</b>'', Safe ''y'']"]
    init_b_x
  by (simp add: Safe_parse_def sample_utils_def sample_registry_def bind_result_def)

text \<open>
  C5, as the specification states it: the loop of \<^verbatim>\<open>to_html\<close> reaches a node with a
  tag name within a bounded number of \<^verbatim>\<open>render\<close> calls, and a cyclic chain fails
  instead of running forever.  It does not hold: \<^verbatim>\<open>Plain()\<close> has no tag name, its
  \<^verbatim>\<open>render\<close> returns it, and neither the loop nor \<^verbatim>\<open>to_html\<close> returns or raises.
\<close>

theorem resolve_cycle_counterexample:
  "\<not> has_html_name looping \<and> render Map.empty looping = Inr looping \<and>
   resolve Map.empty looping = None \<and> to_html sample_utils Map.empty looping = None"
proof -
  have "resolve Map.empty looping = None"
    using looping_within by (simp add: resolve_None_iff)
  then show ?thesis
    by (simp add: to_html_diverges looping_def Plain_class_def render_def Element_render_def
        has_html_name_def)
qed

text \<open>
  C5, amended: the loop ends exactly when the chain of \<^verbatim>\<open>render\<close> results reaches,
  after some number \<open>n\<close> of calls, a node with a tag name (the loop gives that node)
  or a \<^verbatim>\<open>render\<close> that raises (the loop raises the same); it sets no bound and
  notices no cycle, and on any other chain it does not end.
\<close>

theorem resolve_returns_iff:
  "(resolve rt d = Some r \<longleftrightarrow> (\<exists>n. resolve_within rt n d = Some r)) \<and>
   (resolve rt d = None \<longleftrightarrow> (\<forall>n. resolve_within rt n d = None))"
  using resolve_within_resolve [of rt _ d r] resolve_resolve_within [of rt d r]
    resolve_None_iff [of rt d]
  by blast

theorem resolve_returns_iff_witness:
  "resolve_within sample_renders (Suc 0) (Element Page_class [Str ''a''] [])
     = Some (Inr (Element div_class [Str ''a''] [])) \<and>
   resolve sample_renders (Element Page_class [Str ''a''] [])
     = Some (Inr (Element div_class [Str ''a''] []))"
proof -
  have w: "resolve_within sample_renders (Suc 0) (Element Page_class [Str ''a''] [])
     = Some (Inr (Element div_class [Str ''a''] []))"
    by (simp add: sample_renders_def Page_class_def div_class_def render_def has_html_name_def)
  then have "\<exists>n. resolve_within sample_renders n (Element Page_class [Str ''a''] [])
     = Some (Inr (Element div_class [Str ''a''] []))" ..
  with w show ?thesis
    using resolve_returns_iff [of sample_renders "Element Page_class [Str ''a''] []"
        "Inr (Element div_class [Str ''a''] [])"]
    by simp
qed

text \<open>
  C6, as the specification states it: parsing a string that contains a tag whose name
  is not in the registry fails with the unknown-tag error.  It does not hold: the
  children are handled in order, and here the constructor of the registered tag in
  front of \<^verbatim>\<open>Bogus\<close> raises first.
\<close>

theorem Safe_parse_unknown_tag_counterexample:
  "parse_elements sample_utils ''<b bad>x</b><Bogus>y</Bogus>''
     = Inr [Tag ''b'' [Str ''x''] [(''bad'', AttrBool True)], Tag ''Bogus'' [Str ''y''] []] \<and>
   sample_registry ''Bogus'' = None \<and>
   Safe_parse sample_utils sample_registry (Element_init sample_utils sample_registry)
     ''<b bad>x</b><Bogus>y</Bogus>'' = Some (Inl (Raised ''ShapeError'')) \<and>
   Safe_parse sample_utils sample_registry (Element_init sample_utils sample_registry)
     ''<b bad>x</b><Bogus>y</Bogus>'' \<noteq> Some (Inl (TypeError_not_found ''Bogus''))"
  using init_b_bad
  by (simp add: Safe_parse_def sample_utils_def sample_registry_def bind_result_def)

text \<open>
  C6, amended: when \<^verbatim>\<open>parse_elements\<close> finds, among the top-level children of the
  string, a tag whose name is not in the registry, \<^verbatim>\<open>Safe.parse\<close> never returns
  children.  It raises the \<^verbatim>\<open>TypeError\<close> naming that tag when every child in front
  of it is a text or a registered tag whose element is constructed.  Otherwise its
  outcome is that of the first child in front that is not: the \<^verbatim>\<open>TypeError\<close> of
  that earlier unknown tag, the exception its constructor call raises, or no return
  when that call does not return.
\<close>

theorem Safe_parse_unknown_tag:
  assumes "parse_elements u s = Inr (pre @ Tag tg cs as # post)" and "reg tg = None"
  shows "(\<forall>r. Safe_parse u reg construct s \<noteq> Some (Inr r)) \<and>
         ((\<forall>p \<in> set pre. constructs reg construct p) \<longrightarrow>
            Safe_parse u reg construct s = Some (Inl (TypeError_not_found tg))) \<and>
         (\<forall>pre1 p pre2.
            pre = pre1 @ p # pre2 \<and> (\<forall>q \<in> set pre1. constructs reg construct q) \<and>
            \<not> constructs reg construct p \<longrightarrow>
              (child_outcome reg construct p = None \<or>
                 (\<exists>e. child_outcome reg construct p = Some (Inl e))) \<and>
              (child_outcome reg construct p = None \<longrightarrow>
                 Safe_parse u reg construct s = None) \<and>
              (\<forall>e. child_outcome reg construct p = Some (Inl e) \<longrightarrow>
                 Safe_parse u reg construct s = Some (Inl e)))"
proof (intro conjI allI impI)
  fix r show "Safe_parse u reg construct s \<noteq> Some (Inr r)"
    using assms parse_children_unknown_never [of tg cs as "pre @ Tag tg cs as # post" reg construct]
    by (simp add: Safe_parse_def)
next
  assume "\<forall>p \<in> set pre. constructs reg construct p"
  then show "Safe_parse u reg construct s = Some (Inl (TypeError_not_found tg))"
    using assms parse_children_first_unknown [of pre reg construct tg cs as post]
    by (simp add: Safe_parse_def)
next
  fix pre1 p pre2
  assume h: "pre = pre1 @ p # pre2 \<and> (\<forall>q \<in> set pre1. constructs reg construct q) \<and>
            \<not> constructs reg construct p"
  then show "child_outcome reg construct p = None \<or>
                 (\<exists>e. child_outcome reg construct p = Some (Inl e))"
    by (simp add: not_constructs_cases)
  from h have eq: "Safe_parse u reg construct s
      = parse_children reg construct (pre1 @ p # (pre2 @ Tag tg cs as # post))"
    using assms(1) by (simp add: Safe_parse_def)
  from h have pre1: "\<forall>q \<in> set pre1. constructs reg construct q" by simp
  {
    assume "child_outcome reg construct p = None"
    then show "Safe_parse u reg construct s = None"
      using parse_children_first_failure [OF pre1, of p "pre2 @ Tag tg cs as # post"] eq
      by simp
  }
  {
    fix e assume "child_outcome reg construct p = Some (Inl e)"
    then show "Safe_parse u reg construct s = Some (Inl e)"
      using parse_children_first_failure [OF pre1, of p "pre2 @ Tag tg cs as # post"] eq
      by simp
  }
qed

theorem Safe_parse_unknown_tag_witness:
  "Safe_parse sample_utils sample_registry (Element_init sample_utils sample_registry)
     ''Hi <b>x</b><Bogus>y</Bogus>!'' = Some (Inl (TypeError_not_found ''Bogus'')) \<and>
   Safe_parse sample_utils sample_registry (Element_init sample_utils sample_registry)
     ''Hi <b bad>x</b><Bogus>y</Bogus>'' = Some (Inl (Raised ''ShapeError'')) \<and>
   Safe_parse sample_utils sample_registry (\<lambda>c cs as. None)
     ''Hi <b>x</b><Bogus>y</Bogus>!'' = None"
proof -
  let ?init = "Element_init sample_utils sample_registry"
  have r: "sample_registry ''Bogus'' = None"
    by (simp add: sample_registry_def)
  have p1: "parse_elements sample_utils ''Hi <b>x</b><Bogus>y</Bogus>!''
      = Inr ([Text ''Hi '', Tag ''b'' [Str ''x''] []] @ Tag ''Bogus'' [Str ''y''] [] # [Text ''!''])"
    by (simp add: sample_utils_def)
  have p2: "parse_elements sample_utils ''Hi <b bad>x</b><Bogus>y</Bogus>''
      = Inr ([Text ''Hi '', Tag ''b'' [Str ''x''] [(''bad'', AttrBool True)]]
             @ Tag ''Bogus'' [Str ''y''] [] # [])"
    by (simp add: sample_utils_def)
  have c1: "\<forall>p \<in> set [Text ''Hi '', Tag ''b'' [Str ''x''] []].
              constructs sample_registry ?init p"
    using init_b_x by (simp add: constructs_def sample_registry_def)
  have w1: "Safe_parse sample_utils sample_registry ?init ''Hi <b>x</b><Bogus>y</Bogus>!''
      = Some (Inl (TypeError_not_found ''Bogus''))"
    using Safe_parse_unknown_tag [of sample_utils "''Hi <b>x</b><Bogus>y</Bogus>!''" "[Text ''Hi '', Tag ''b'' [Str ''x''] []]"
        "''Bogus''" "[Str ''y'']" "[]" "[Text ''!'']" sample_registry ?init, OF p1 r] c1
    by blast
  have t1: "\<forall>q \<in> set [Text ''Hi '']. constructs sample_registry ?init q"
    by (simp add: constructs_def)
  have n2: "\<not> constructs sample_registry ?init (Tag ''b'' [Str ''x''] [(''bad'', AttrBool True)])"
    using init_b_bad by (simp add: constructs_def sample_registry_def)
  have o2: "child_outcome sample_registry ?init (Tag ''b'' [Str ''x''] [(''bad'', AttrBool True)])
      = Some (Inl (Raised ''ShapeError''))"
    using init_b_bad by (simp add: child_outcome_def sample_registry_def bind_result_def)
  have w2: "Safe_parse sample_utils sample_registry ?init ''Hi <b bad>x</b><Bogus>y</Bogus>''
      = Some (Inl (Raised ''ShapeError''))"
    using Safe_parse_unknown_tag [of sample_utils "''Hi <b bad>x</b><Bogus>y</Bogus>''"
        "[Text ''Hi '', Tag ''b'' [Str ''x''] [(''bad'', AttrBool True)]]"
        "''Bogus''" "[Str ''y'']" "[]" "[]" sample_registry ?init, OF p2 r,
        THEN conjunct2, THEN conjunct2, rule_format,
        of "[Text ''Hi '']" "Tag ''b'' [Str ''x''] [(''bad'', AttrBool True)]" "[]"]
      t1 n2 o2
    by simp
  have t3: "\<forall>q \<in> set [Text ''Hi '']. constructs sample_registry (\<lambda>c cs as. None) q"
    by (simp add: constructs_def)
  have n3: "\<not> constructs sample_registry (\<lambda>c cs as. None) (Tag ''b'' [Str ''x''] [])"
    by (simp add: constructs_def sample_registry_def)
  have o3: "child_outcome sample_registry (\<lambda>c cs as. None) (Tag ''b'' [Str ''x''] []) = None"
    by (simp add: child_outcome_def sample_registry_def bind_result_def)
  have w3: "Safe_parse sample_utils sample_registry (\<lambda>c cs as. None)
      ''Hi <b>x</b><Bogus>y</Bogus>!'' = None"
    using Safe_parse_unknown_tag [of sample_utils "''Hi <b>x</b><Bogus>y</Bogus>!''" "[Text ''Hi '', Tag ''b'' [Str ''x''] []]"
        "''Bogus''" "[Str ''y'']" "[]" "[Text ''!'']" sample_registry "\<lambda>c cs as. None",
        OF p1 r, THEN conjunct2, THEN conjunct2, rule_format, of "[Text ''Hi '']" "Tag ''b'' [Str ''x''] []" "[]"]
      t3 n3 o3
    by simp
  from w1 w2 w3 show ?thesis by simp
qed

text \<open>
  C7: declaring a subclass whose name is already in the registry raises
  (\<^verbatim>\<open>ImportWarning\<close>) and leaves the registry, the first registration included, as
  it was.
\<close>

theorem init_subclass_duplicate:
  "reg (cls_name c) = Some c0 \<Longrightarrow>
     init_subclass reg c = (Inl (ImportWarning (cls_name c)), reg) \<and>
     snd (init_subclass reg c) (cls_name c) = Some c0"
  by (auto simp: init_subclass_def)

theorem init_subclass_duplicate_witness:
  "sample_registry ''div'' = Some div_class \<and>
   init_subclass sample_registry \<lparr>cls_name = ''div'', html_name = None, always_pair = False\<rparr>
     = (Inl (ImportWarning ''div''), sample_registry)"
  using init_subclass_duplicate
    [of sample_registry "\<lparr>cls_name = ''div'', html_name = None, always_pair = False\<rparr>" div_class]
  by (simp add: sample_registry_def)

text \<open>
  C8: in pretty mode a node that is neither simple nor childless is to have every
  child on a line of its own, indented one level deeper.  \<^verbatim>\<open>to_string\<close> misses it:
  for \<^verbatim>\<open>div("a", "b")\<close> it writes the indentation once, behind the opening tag and
  without a line break, and both texts behind it on that line.  The branch for a
  simple node with attributes (base.py 205) does write the line break.
\<close>

theorem to_string_two_texts:
  "children two_texts \<noteq> [] \<and> \<not> is_simple two_texts \<and>
   to_string sample_utils True 0 two_texts = ''<div>  ab'' @ [CHR 0x0A] @ ''</div>'' \<and>
   to_string sample_utils True 0 two_texts \<noteq>
     ''<div>'' @ own_line 1 ''a'' @ own_line 1 ''b'' @ [CHR 0x0A] @ ''</div>''"
  by (simp add: two_texts_def div_class_def is_simple_def string_open_tag_def
      has_attributes_def indent_of_def str_primitive_def own_line_def)

text \<open>
  C9: equality of themes by name alone.  \<^verbatim>\<open>Theme.__eq__\<close> is written that way, but
  the instances are \<^verbatim>\<open>DarkTheme\<close>s and \<^verbatim>\<open>LightTheme\<close>s, whose \<^verbatim>\<open>__eq__\<close> is the one
  \<^verbatim>\<open>@dataclass\<close> generates: two dark themes with the same name and different
  colours are equal for \<^verbatim>\<open>Theme.__eq__\<close> and not equal for \<^verbatim>\<open>==\<close>.
\<close>

theorem theme_equals_not_by_name:
  "name black_dark = name (new_DarkTheme None None None) \<and>
   Theme_eq black_dark (ThemeObj (new_DarkTheme None None None)) \<and>
   \<not> theme_equals black_dark (new_DarkTheme None None None)"
  by (simp add: black_dark_def new_DarkTheme_def Theme_eq_def theme_equals_def dataclass_eq_def
      default_Colors_def)

text \<open>
  C10: \<^verbatim>\<open>__format__\<close> raises \<^verbatim>\<open>TypeError\<close> when a child of the element is not a
  primitive, and gives \<^verbatim>\<open>to_string(pretty=False)\<close> when all the children are
  primitives.
\<close>

theorem Element_format_textual:
  "((\<exists>c \<in> set (children e). \<not> is_primitive c) \<longrightarrow>
      (\<exists>e'. Elem e' \<in> set (children e) \<and>
         Element_format u e = Inl (TypeError_textual (cls_name (cls e)) (cls_name (cls e'))))) \<and>
   ((\<forall>c \<in> set (children e). is_primitive c) \<longrightarrow>
      Element_format u e = Inr (to_string u False 0 e))"
proof (intro conjI impI)
  assume "\<exists>c \<in> set (children e). \<not> is_primitive c"
  then have "check_textual e (children e) \<noteq> None"
    by (simp add: check_textual_None)
  then obtain err where err: "check_textual e (children e) = Some err" by auto
  from check_textual_Some [OF this] obtain e' where
    "Elem e' \<in> set (children e)" "err = TypeError_textual (cls_name (cls e)) (cls_name (cls e'))"
    by blast
  with err show "\<exists>e'. Elem e' \<in> set (children e) \<and>
         Element_format u e = Inl (TypeError_textual (cls_name (cls e)) (cls_name (cls e')))"
    by (auto simp: Element_format_def)
next
  assume "\<forall>c \<in> set (children e). is_primitive c"
  then have "check_textual e (children e) = None" by (simp add: check_textual_None)
  then show "Element_format u e = Inr (to_string u False 0 e)"
    by (simp add: Element_format_def)
qed

theorem Element_format_textual_witness:
  "Element_format sample_utils (Element br_class [Str ''a'', Elem (Element div_class [] [])] [])
     = Inl (TypeError_textual ''br'' ''div'') \<and>
   Element_format sample_utils (Element div_class [Str ''a<'', Bool True, IntVal 12] [])
     = Inr ''<div>a<True12</div>''"
  using Element_format_textual
      [of "Element br_class [Str ''a'', Elem (Element div_class [] [])] []" sample_utils]
    Element_format_textual
      [of "Element div_class [Str ''a<'', Bool True, IntVal 12] []" sample_utils]
  by (simp add: is_primitive_def br_class_def div_class_def string_open_tag_def
      has_attributes_def indent_of_def str_primitive_def str_int_def digits.simps)

end
